theory Spec2Isabelle
  imports Complex_Main "HOL-Library.Sublist" "HOL-Library.Multiset"
begin

section \<open>JavaScript values used by the site generator and the filter layer\<close>

text \<open>
  Strings are lists of HOL characters, that is bytes: a text stands for its UTF-8
  encoding, not for UTF-16 code units. \<open>toLowerCase\<close> and \<open>trim\<close> act on the ASCII
  letters and the ASCII white space only.

  A JavaScript number is either \<open>NaN\<close> or a value of \<open>num\<close>: an exact rational or one
  of the two infinities. Rounding to doubles and the sign of zero are not modelled; the
  code only compares numbers, subtracts them inside sort comparators and prints them.
\<close>

datatype num = NInf | Fin rat | PInf

datatype number = NaN | Num num

fun num_le :: "num \<Rightarrow> num \<Rightarrow> bool" where
  "num_le NInf b = True"
| "num_le (Fin x) NInf = False"
| "num_le (Fin x) (Fin y) = (x \<le> y)"
| "num_le (Fin x) PInf = True"
| "num_le PInf PInf = True"
| "num_le PInf b = False"


text \<open>The binary \<open>-\<close> on two numbers that are not \<open>NaN\<close>.\<close>

fun minus_num :: "num \<Rightarrow> num \<Rightarrow> number" where
  "minus_num (Fin x) (Fin y) = Num (Fin (x - y))"
| "minus_num (Fin x) PInf = Num NInf"
| "minus_num (Fin x) NInf = Num PInf"
| "minus_num PInf PInf = NaN"
| "minus_num PInf b = Num PInf"
| "minus_num NInf NInf = NaN"
| "minus_num NInf b = Num NInf"

text \<open>\<open>v > 0\<close> for a comparator result; \<open>NaN\<close> compares false.\<close>

fun isPositive :: "number \<Rightarrow> bool" where
  "isPositive (Num PInf) = True"
| "isPositive (Num (Fin x)) = (0 < x)"
| "isPositive v = False"

subsection \<open>Strings\<close>

definition charCode :: "char \<Rightarrow> nat" where
  "charCode c = of_char c"

definition isDigit :: "char \<Rightarrow> bool" where
  "isDigit c = (48 \<le> charCode c \<and> charCode c \<le> 57)"

definition isWhiteSpace :: "char \<Rightarrow> bool" where
  "isWhiteSpace c = (c = CHR '' '' \<or> c = CHR 0x09 \<or> c = CHR 0x0A \<or> c = CHR 0x0B
     \<or> c = CHR 0x0C \<or> c = CHR 0x0D)"

definition trim :: "string \<Rightarrow> string" where
  "trim s = rev (dropWhile isWhiteSpace (rev (dropWhile isWhiteSpace s)))"

definition lowerChar :: "char \<Rightarrow> char" where
  "lowerChar c = (if 65 \<le> charCode c \<and> charCode c \<le> 90 then char_of (charCode c + 32) else c)"

definition toLowerCase :: "string \<Rightarrow> string" where
  "toLowerCase s = map lowerChar s"


text \<open>\<open>xs.join(sep)\<close> on an array of strings.\<close>

fun join :: "string \<Rightarrow> string list \<Rightarrow> string" where
  "join sep [] = []"
| "join sep [x] = x"
| "join sep (x # y # ys) = x @ sep @ join sep (y # ys)"

text \<open>
  \<open>s.replace(/c/g, r)\<close> for a one-character pattern \<open>c\<close> and a replacement text \<open>r\<close>
  without \<open>$\<close>: every occurrence of \<open>c\<close> becomes \<open>r\<close>, everything else is kept.
\<close>

definition replaceAll :: "char \<Rightarrow> string \<Rightarrow> string \<Rightarrow> string" where
  "replaceAll c r s = concat (map (\<lambda>x. if x = c then r else [x]) s)"

section \<open>The content generator\<close>

subsection \<open>escapeHtml\<close>

text \<open>The five replacements run one after the other, in the order of the source.\<close>

definition escapeHtml :: "string \<Rightarrow> string" where
  "escapeHtml v =
     replaceAll (CHR 0x27) ''&#39;''
       (replaceAll (CHR 0x22) ''&quot;''
         (replaceAll CHR ''>'' ''&gt;''
           (replaceAll CHR ''<'' ''&lt;''
             (replaceAll CHR ''&'' ''&amp;'' v))))"

definition htmlEntities :: "string list" where
  "htmlEntities = [''&amp;'', ''&lt;'', ''&gt;'', ''&quot;'', ''&#39;'']"

text \<open>
  One source character and its image after all five replacements; \<open>escapeHtml\<close> is
  shown below to act character by character in this way.
\<close>

definition escapeChar :: "char \<Rightarrow> string" where
  "escapeChar c =
     (if c = CHR ''&'' then ''&amp;'' else if c = CHR ''<'' then ''&lt;''
      else if c = CHR ''>'' then ''&gt;'' else if c = CHR 0x22 then ''&quot;''
      else if c = CHR 0x27 then ''&#39;'' else [c])"

subsection \<open>Numbers and strings: \<open>String(n)\<close> and \<open>Number(s)\<close>\<close>

definition digitChar :: "nat \<Rightarrow> char" where
  "digitChar d = char_of (48 + d)"

fun natToString :: "nat \<Rightarrow> string" where
  "natToString n =
     (if n < 10 then [digitChar n] else natToString (n div 10) @ [digitChar (n mod 10)])"

declare natToString.simps [simp del]

fun fracDigits :: "nat \<Rightarrow> nat \<Rightarrow> nat \<Rightarrow> string" where
  "fracDigits 0 r d = []"
| "fracDigits (Suc fuel) r d =
     (if r = 0 then [] else digitChar (r * 10 div d) # fracDigits fuel (r * 10 mod d) d)"

text \<open>
  \<open>String(x)\<close> for a finite number: sign, integer digits and, for a fraction, a point and
  the decimal expansion (cut after 20 digits). This is Number::toString for integers below
  \<open>10^21\<close> and for short decimal fractions; exponent notation is not modelled.
\<close>

definition ratToString :: "rat \<Rightarrow> string" where
  "ratToString x =
     (let p = fst (quotient_of x); a = nat \<bar>p\<bar>; d = nat (snd (quotient_of x))
      in (if p < 0 then ''-'' else [])
         @ natToString (a div d)
         @ (if a mod d = 0 then [] else ''.'' @ fracDigits 20 (a mod d) d))"

fun numToString :: "num \<Rightarrow> string" where
  "numToString NInf = ''-Infinity''"
| "numToString PInf = ''Infinity''"
| "numToString (Fin x) = ratToString x"

text \<open>A template literal \<open>${v}\<close> on a value that is a number or \<open>null\<close>.\<close>

fun nullableToString :: "num option \<Rightarrow> string" where
  "nullableToString None = ''null''"
| "nullableToString (Some n) = numToString n"

definition isHexDigit :: "char \<Rightarrow> bool" where
  "isHexDigit c = (isDigit c \<or> (65 \<le> charCode c \<and> charCode c \<le> 70)
     \<or> (97 \<le> charCode c \<and> charCode c \<le> 102))"

definition hexVal :: "char \<Rightarrow> nat" where
  "hexVal c = (if isDigit c then charCode c - 48
               else if charCode c < 97 then charCode c - 55 else charCode c - 87)"

definition radixValue :: "nat \<Rightarrow> string \<Rightarrow> nat" where
  "radixValue b ds = foldl (\<lambda>acc c. b * acc + hexVal c) 0 ds"

definition decValue :: "string \<Rightarrow> nat" where
  "decValue ds = radixValue 10 ds"

definition isRadixDigit :: "nat \<Rightarrow> char \<Rightarrow> bool" where
  "isRadixDigit b c = (isHexDigit c \<and> hexVal c < b)"

definition pow10 :: "int \<Rightarrow> rat" where
  "pow10 k = (if 0 \<le> k then 10 ^ nat k else 1 / 10 ^ nat (- k))"

fun negNum :: "num \<Rightarrow> num" where
  "negNum NInf = PInf"
| "negNum PInf = NInf"
| "negNum (Fin x) = Fin (- x)"

text \<open>\<open>0x\<close>, \<open>0o\<close> and \<open>0b\<close> literals (unsigned).\<close>

definition parseNonDecimal :: "string \<Rightarrow> num option" where
  "parseNonDecimal s =
     (case s of
        c0 # c1 # ds \<Rightarrow>
          (let b = (if c1 = CHR ''x'' \<or> c1 = CHR ''X'' then 16
                    else if c1 = CHR ''o'' \<or> c1 = CHR ''O'' then 8
                    else if c1 = CHR ''b'' \<or> c1 = CHR ''B'' then 2 else (0::nat))
           in if c0 = CHR ''0'' \<and> ds \<noteq> [] \<and> b \<noteq> 0 \<and> list_all (isRadixDigit b) ds
              then Some (Fin (of_nat (radixValue b ds))) else None)
      | _ \<Rightarrow> None)"

text \<open>The optional exponent part and nothing after it.\<close>

definition parseExponent :: "string \<Rightarrow> int option" where
  "parseExponent s =
     (case s of
        [] \<Rightarrow> Some 0
      | c # r \<Rightarrow>
          if c = CHR ''e'' \<or> c = CHR ''E'' then
            (let neg = (r \<noteq> [] \<and> hd r = CHR ''-'');
                 ds = (if r \<noteq> [] \<and> (hd r = CHR ''-'' \<or> hd r = CHR ''+'') then tl r else r)
             in if ds \<noteq> [] \<and> list_all isDigit ds
                then Some (if neg then - int (decValue ds) else int (decValue ds))
                else None)
          else None)"

definition parseUnsigned :: "string \<Rightarrow> num option" where
  "parseUnsigned s =
     (if s = ''Infinity'' then Some PInf
      else
        (let ip = takeWhile isDigit s; r1 = dropWhile isDigit s;
             hasDot = (r1 \<noteq> [] \<and> hd r1 = CHR ''.'');
             fp = (if hasDot then takeWhile isDigit (tl r1) else []);
             r2 = (if hasDot then dropWhile isDigit (tl r1) else r1)
         in if ip = [] \<and> fp = [] then None
            else (case parseExponent r2 of
                    None \<Rightarrow> None
                  | Some e \<Rightarrow>
                      Some (Fin (of_nat (decValue (ip @ fp)) * pow10 (e - int (length fp)))))))"

definition parseDecimal :: "string \<Rightarrow> num option" where
  "parseDecimal s =
     (case s of
        [] \<Rightarrow> None
      | c # r \<Rightarrow>
          if c = CHR ''-'' then map_option negNum (parseUnsigned r)
          else if c = CHR ''+'' then parseUnsigned r
          else parseUnsigned s)"

text \<open>\<open>Number(s)\<close> on a string: white space is trimmed, the empty string is \<open>0\<close>.\<close>

definition stringToNumber :: "string \<Rightarrow> number" where
  "stringToNumber s =
     (let t = trim s
      in if t = [] then Num (Fin 0)
         else (case parseNonDecimal t of
                 Some n \<Rightarrow> Num n
               | None \<Rightarrow> (case parseDecimal t of Some n \<Rightarrow> Num n | None \<Rightarrow> NaN)))"

subsection \<open>The parsed data file\<close>

text \<open>
  \<open>normalize\<close> receives the result of \<open>JSON.parse\<close>. An object is the list of its
  members; a property that is absent reads as \<open>undefined\<close>, here \<open>None\<close>. A parsed
  number is never \<open>NaN\<close>.
\<close>

datatype json =
    JNull
  | JBool bool
  | JNum num
  | JStr string
  | JArr "json list"
  | JObj "(string \<times> json) list"

text \<open>Reading one of the data properties; an array has none of them.\<close>

fun getProp :: "json \<Rightarrow> string \<Rightarrow> json option" where
  "getProp (JObj kvs) k = map_of kvs k"
| "getProp v k = None"

fun truthy :: "json \<Rightarrow> bool" where
  "truthy JNull = False"
| "truthy (JBool b) = b"
| "truthy (JNum n) = (n \<noteq> Fin 0)"
| "truthy (JStr s) = (s \<noteq> [])"
| "truthy (JArr xs) = True"
| "truthy (JObj kvs) = True"

fun typeof :: "json option \<Rightarrow> string" where
  "typeof None = ''undefined''"
| "typeof (Some (JBool b)) = ''boolean''"
| "typeof (Some (JNum n)) = ''number''"
| "typeof (Some (JStr s)) = ''string''"
| "typeof (Some v) = ''object''"

text \<open>\<open>String(v)\<close>; inside an array, \<open>null\<close> elements print as the empty string.\<close>

fun jsString :: "json \<Rightarrow> string" where
  "jsString JNull = ''null''"
| "jsString (JBool b) = (if b then ''true'' else ''false'')"
| "jsString (JNum n) = numToString n"
| "jsString (JStr s) = s"
| "jsString (JArr xs) = join '','' (map (\<lambda>x. if x = JNull then [] else jsString x) xs)"
| "jsString (JObj kvs) = ''[object Object]''"

text \<open>\<open>String(v ?? "")\<close> on a property value.\<close>

fun stringOrEmpty :: "json option \<Rightarrow> string" where
  "stringOrEmpty None = []"
| "stringOrEmpty (Some JNull) = []"
| "stringOrEmpty (Some v) = jsString v"

text \<open>\<open>Number(v)\<close> on a property value.\<close>

fun toNumber :: "json option \<Rightarrow> number" where
  "toNumber None = NaN"
| "toNumber (Some JNull) = Num (Fin 0)"
| "toNumber (Some (JBool b)) = Num (Fin (if b then 1 else 0))"
| "toNumber (Some (JNum n)) = Num n"
| "toNumber (Some v) = stringToNumber (jsString v)"

subsection \<open>Normalized entries\<close>

record entry =
  id' :: string
  part :: string
  type :: string
  article :: "num option"
  "section" :: "num option"
  clause :: "num option"
  subclause :: "num option"
  amendmentNumber :: "num option"
  isRepealed :: bool
  "text" :: string
  searchTags :: "string list"
  position :: num
  title :: string
  ratifiedOn :: "string option"
  effectiveOn :: "string option"
  proposedOn :: "string option"
  repealedOn :: "string option"
  searchable :: string

datatype error = NotAnArray | InvalidRecord | MissingRequiredFields

definition valueOrNull :: "json option \<Rightarrow> num option" where
  "valueOrNull v = (case v of Some (JNum n) \<Rightarrow> Some n | _ \<Rightarrow> None)"

definition stringOrNull :: "json option \<Rightarrow> string option" where
  "stringOrNull v = (case v of Some (JStr s) \<Rightarrow> (if length s > 0 then Some s else None) | _ \<Rightarrow> None)"

text \<open>
  \<open>/^amend(\d+)-/.exec(id)\<close>: the captured digits, or \<open>None\<close> when the pattern does
  not match. The digits are taken greedily and a hyphen must follow them.
\<close>

definition amendMatch :: "string \<Rightarrow> string option" where
  "amendMatch s =
     (if prefix ''amend'' s then
        (let r = drop 5 s; ds = takeWhile isDigit r; r' = dropWhile isDigit r
         in if ds \<noteq> [] \<and> prefix ''-'' r' then Some ds else None)
      else None)"

definition getPart :: "string \<Rightarrow> string \<Rightarrow> string" where
  "getPart eid ty =
     (if ty = ''preamble'' then ''preamble''
      else if ty = ''amendment'' \<or> amendMatch eid \<noteq> None then ''amendment''
      else ''article'')"

text \<open>\<open>Number\<close> of the captured digits is their decimal value.\<close>

definition getAmendmentNumber :: "string \<Rightarrow> num option" where
  "getAmendmentNumber eid =
     (case amendMatch eid of Some ds \<Rightarrow> Some (Fin (of_nat (decValue ds))) | None \<Rightarrow> None)"

definition buildTitle :: "entry \<Rightarrow> string" where
  "buildTitle e =
     (if entry.part e = ''preamble'' then ''Preamble''
      else
        join '', ''
          ((if entry.part e = ''article''
            then [''Article '' @ nullableToString (entry.article e)]
            else [''Amendment '' @ nullableToString (amendmentNumber e)])
           @ (if entry.section e \<noteq> None
              then [''Section '' @ nullableToString (entry.section e)] else [])
           @ (if clause e \<noteq> None then [''Clause '' @ nullableToString (clause e)] else [])
           @ (if subclause e \<noteq> None
              then [''Subclause '' @ nullableToString (subclause e)] else [])))"

text \<open>
  The callback of \<open>rawData.map\<close>: one raw record to one normalized entry, or the error
  that is thrown.
\<close>

definition normalizeEntry :: "json \<Rightarrow> error + entry" where
  "normalizeEntry raw =
     (if \<not> truthy raw \<or> typeof (Some raw) \<noteq> ''object'' then Inl InvalidRecord
      else
        (let eid = stringOrEmpty (getProp raw ''id'');
             ty = stringOrEmpty (getProp raw ''type'');
             txt = stringOrEmpty (getProp raw ''text'');
             tags = (case getProp raw ''searchTags'' of
                       Some (JArr ts) \<Rightarrow> map jsString ts
                     | _ \<Rightarrow> []);
             pos = toNumber (getProp raw ''position'')
         in if eid = [] \<or> ty = [] \<or> txt = [] \<or> pos = NaN then Inl MissingRequiredFields
            else
              (case pos of
                 NaN \<Rightarrow> Inl MissingRequiredFields
               | Num p \<Rightarrow>
                  (let normalized =
                     \<lparr> id' = eid,
                       part = getPart eid ty,
                       type = ty,
                       article = valueOrNull (getProp raw ''article''),
                       section = valueOrNull (getProp raw ''section''),
                       clause = valueOrNull (getProp raw ''clause''),
                       subclause = valueOrNull (getProp raw ''subclause''),
                       amendmentNumber = getAmendmentNumber eid,
                       isRepealed = (getProp raw ''repealedOn'' \<noteq> Some JNull
                                     \<and> getProp raw ''repealedOn'' \<noteq> None),
                       text = txt,
                       searchTags = tags,
                       position = p,
                       title = [],
                       ratifiedOn = stringOrNull (getProp raw ''ratifiedOn''),
                       effectiveOn = stringOrNull (getProp raw ''effectiveOn''),
                       proposedOn = stringOrNull (getProp raw ''proposedOn''),
                       repealedOn = stringOrNull (getProp raw ''repealedOn''),
                       searchable = [] \<rparr>;
                     titled = normalized \<lparr> title := buildTitle normalized \<rparr>
                   in Inr (titled \<lparr> searchable :=
                        toLowerCase (join '' ''
                          ([entry.text titled, id' titled] @ searchTags titled
                           @ [title titled])) \<rparr>)))))"

text \<open>\<open>Array.prototype.map\<close> with a callback that may throw: the first throw ends it.\<close>

fun mapThrowing :: "('a \<Rightarrow> error + 'b) \<Rightarrow> 'a list \<Rightarrow> error + 'b list" where
  "mapThrowing f [] = Inr []"
| "mapThrowing f (x # xs) =
     (case f x of
        Inl err \<Rightarrow> Inl err
      | Inr y \<Rightarrow> (case mapThrowing f xs of Inl err \<Rightarrow> Inl err | Inr ys \<Rightarrow> Inr (y # ys)))"

text \<open>
  \<open>Array.prototype.sort(compare)\<close>: a stable sort that places \<open>x\<close> after \<open>y\<close> only
  when \<open>compare(x, y) > 0\<close>; a \<open>NaN\<close> result counts as \<open>0\<close>. It is written as an
  insertion sort.
\<close>

fun insertBy :: "('a \<Rightarrow> 'a \<Rightarrow> number) \<Rightarrow> 'a \<Rightarrow> 'a list \<Rightarrow> 'a list" where
  "insertBy cmp x [] = [x]"
| "insertBy cmp x (y # ys) =
     (if isPositive (cmp x y) then y # insertBy cmp x ys else x # y # ys)"

definition sortBy :: "('a \<Rightarrow> 'a \<Rightarrow> number) \<Rightarrow> 'a list \<Rightarrow> 'a list" where
  "sortBy cmp xs = foldr (insertBy cmp) xs []"

definition normalize :: "json \<Rightarrow> error + entry list" where
  "normalize rawData =
     (case rawData of
        JArr records \<Rightarrow>
          (case mapThrowing normalizeEntry records of
             Inl err \<Rightarrow> Inl err
           | Inr es \<Rightarrow> Inr (sortBy (\<lambda>a b. minus_num (position a) (position b)) es))
      | _ \<Rightarrow> Inl NotAnArray)"

subsection \<open>buildToc\<close>











subsection \<open>injectGenerated\<close>

text \<open>
  \<open>escapeRegex\<close> puts a backslash before every character that is special in a regular
  expression, so the pattern built by \<open>injectGenerated\<close> is: the start marker read
  literally, the shortest run of arbitrary characters, the end marker read literally.
  \<open>indexOfFrom\<close> is the distance to the first occurrence of a literal text.
\<close>

fun indexOfFrom :: "string \<Rightarrow> string \<Rightarrow> nat option" where
  "indexOfFrom needle [] = (if needle = [] then Some 0 else None)"
| "indexOfFrom needle (c # cs) =
     (if prefix needle (c # cs) then Some 0 else map_option Suc (indexOfFrom needle cs))"

text \<open>The length of the match that starts at the head of the text, if there is one.\<close>

definition matchHere :: "string \<Rightarrow> string \<Rightarrow> string \<Rightarrow> nat option" where
  "matchHere startMarker endMarker s =
     (if prefix startMarker s then
        (case indexOfFrom endMarker (drop (length startMarker) s) of
           Some k \<Rightarrow> Some (length startMarker + k + length endMarker)
         | None \<Rightarrow> None)
      else None)"

text \<open>
  The matcher tries every start position from the left: the result is the position and
  the length of the first match.
\<close>

fun patternExec :: "string \<Rightarrow> string \<Rightarrow> string \<Rightarrow> (nat \<times> nat) option" where
  "patternExec startMarker endMarker [] =
     map_option (\<lambda>l. (0, l)) (matchHere startMarker endMarker [])"
| "patternExec startMarker endMarker (c # cs) =
     (case matchHere startMarker endMarker (c # cs) of
        Some l \<Rightarrow> Some (0, l)
      | None \<Rightarrow> map_option (\<lambda>(i, l). (Suc i, l)) (patternExec startMarker endMarker cs))"

text \<open>
  The replacement text of \<open>String.prototype.replace\<close> is a template: \<open>$$\<close> stands for
  a dollar sign, \<open>$&\<close> for the matched text, \<open>$`\<close> and \<open>$'\<close> for the text before
  and after the match. The pattern has no capture groups, so any other \<open>$\<close> is kept.
\<close>

fun getSubstitution :: "string \<Rightarrow> string \<Rightarrow> string \<Rightarrow> string \<Rightarrow> string" where
  "getSubstitution matched preceding following (c # d # r) =
     (if c = CHR ''$'' \<and> d = CHR ''$''
      then CHR ''$'' # getSubstitution matched preceding following r
      else if c = CHR ''$'' \<and> d = CHR ''&''
      then matched @ getSubstitution matched preceding following r
      else if c = CHR ''$'' \<and> d = CHR ''`''
      then preceding @ getSubstitution matched preceding following r
      else if c = CHR ''$'' \<and> d = CHR 0x27
      then following @ getSubstitution matched preceding following r
      else c # getSubstitution matched preceding following (d # r))"
| "getSubstitution matched preceding following r = r"

datatype inject_error = MissingMarkerPair

definition injectGenerated ::
  "string \<Rightarrow> string \<Rightarrow> string \<Rightarrow> string \<Rightarrow> inject_error + string" where
  "injectGenerated sourceHtml startMarker endMarker content =
     (case patternExec startMarker endMarker sourceHtml of
        None \<Rightarrow> Inl MissingMarkerPair
      | Some (i, l) \<Rightarrow>
          Inr (take i sourceHtml
               @ getSubstitution (take l (drop i sourceHtml)) (take i sourceHtml)
                   (drop (i + l) sourceHtml)
                   (startMarker @ ''\<newline>'' @ content @ ''\<newline>'' @ endMarker)
               @ drop (i + l) sourceHtml))"

text \<open>What the specification says the result is when a marker pair is present.\<close>

definition injectGenerated_spec ::
  "string \<Rightarrow> string \<Rightarrow> string \<Rightarrow> string \<Rightarrow> inject_error + string" where
  "injectGenerated_spec sourceHtml startMarker endMarker content =
     (case patternExec startMarker endMarker sourceHtml of
        None \<Rightarrow> Inl MissingMarkerPair
      | Some (i, l) \<Rightarrow>
          Inr (take i sourceHtml
               @ startMarker @ ''\<newline>'' @ content @ ''\<newline>'' @ endMarker
               @ drop (i + l) sourceHtml))"

section \<open>The filter layer\<close>

record state =
  q :: string
  part :: string
  article :: string
  amendment :: string
  status :: string







subsection \<open>URLSearchParams and the address bar\<close>


















subsection \<open>matchesEntry\<close>




subsection \<open>The HTML of one entry\<close>

definition formatPartLabel :: "entry \<Rightarrow> string" where
  "formatPartLabel e =
     (if entry.part e = ''preamble'' then ''Preamble''
      else if entry.part e = ''article'' then ''Article''
      else ''Amendment'')"

text \<open>A date field is shown when it is truthy: a string that is not empty.\<close>

definition dateRow :: "string \<Rightarrow> string option \<Rightarrow> (string \<times> string) list" where
  "dateRow label v = (case v of Some d \<Rightarrow> if d \<noteq> [] then [(label, d)] else [] | None \<Rightarrow> [])"

definition numberRow :: "string \<Rightarrow> num option \<Rightarrow> (string \<times> string) list" where
  "numberRow label v = (case v of Some n \<Rightarrow> [(label, numToString n)] | None \<Rightarrow> [])"

definition buildDetailRows :: "entry \<Rightarrow> (string \<times> string) list" where
  "buildDetailRows e =
     [(''Part'', formatPartLabel e)]
     @ numberRow ''Article'' (entry.article e)
     @ numberRow ''Amendment'' (amendmentNumber e)
     @ numberRow ''Section'' (entry.section e)
     @ numberRow ''Clause'' (clause e)
     @ numberRow ''Subclause'' (subclause e)
     @ (if length (searchTags e) > 0 then [(''Search tags'', join '', '' (searchTags e))] else [])
     @ dateRow ''Ratified'' (ratifiedOn e)
     @ dateRow ''Proposed'' (proposedOn e)
     @ dateRow ''Effective'' (effectiveOn e)
     @ dateRow ''Repealed'' (repealedOn e)"

definition detailRowHtml :: "string \<times> string \<Rightarrow> string" where
  \<open>detailRowHtml row =
     ''      <div class="entry-detail-row"><dt>'' @ escapeHtml (fst row) @ ''</dt><dd>''
     @ escapeHtml (snd row) @ ''</dd></div>''\<close>

definition buildDetailsHtml :: "entry \<Rightarrow> string \<Rightarrow> string" where
  \<open>buildDetailsHtml e entryAnchorId =
     join ''\<newline>''
       [''  <details class="entry-details">'',
        ''    <summary class="entry-details-toggle" aria-label="Entry details">i</summary>'',
        ''    <dl class="entry-details-list">'',
        ''      <div class="entry-detail-row entry-detail-row-link"><dt>Link</dt><dd><button type="button" class="copy-anchor-button" data-anchor-id="''
          @ escapeHtml entryAnchorId
          @ ''">Copy link</button> <a class="entry-anchor-link" href="#''
          @ escapeHtml entryAnchorId @ ''">Open</a></dd></div>'',
        join ''\<newline>'' (map detailRowHtml (buildDetailRows e)),
        ''    </dl>'',
        ''  </details>'']\<close>

text \<open>The strings that \<open>buildContent\<close> pushes for one entry, after any headings.\<close>

definition entryLines :: "entry \<Rightarrow> string list" where
  \<open>entryLines e =
     (let escapedId = escapeHtml (id' e);
          entryId = ''entry-'' @ escapedId;
          articleValue = (case entry.article e of None \<Rightarrow> [] | Some n \<Rightarrow> numToString n);
          amendmentValue = (case amendmentNumber e of None \<Rightarrow> [] | Some n \<Rightarrow> numToString n);
          repealedBadge =
            (if isRepealed e then ''<span class="repealed-badge">Repealed</span>'' else []);
          textHtml = replaceAll CHR ''\<newline>'' ''<br>'' (escapeHtml (entry.text e));
          detailsHtml = buildDetailsHtml e entryId
      in [''<article class="entry" id="'' @ entryId @ ''" data-entry-id="'' @ escapedId
            @ ''" data-part="'' @ entry.part e @ ''" data-article="'' @ articleValue
            @ ''" data-amendment="'' @ amendmentValue @ ''" data-repealed="''
            @ (if isRepealed e then ''true'' else ''false'') @ ''">'',
          ''  <div class="entry-heading-row">'',
          ''    <h3 class="entry-title"><a href="#'' @ entryId @ ''">''
            @ escapeHtml (title e) @ ''</a>'' @ repealedBadge @ ''</h3>'',
          detailsHtml,
          ''  </div>'',
          ''  <p class="entry-text">'' @ textHtml @ ''</p>'',
          ''</article>''])\<close>

text \<open>
  The same block as a template over strings that are already escaped: the id, the anchor
  (the escaped \<open>entry-\<close> id, escaped once more by \<open>buildDetailsHtml\<close>), the title, the
  text and the detail rows. The remaining arguments are not free text.
\<close>

definition entryTemplate ::
  "string \<Rightarrow> string \<Rightarrow> string \<Rightarrow> string \<Rightarrow> (string \<times> string) list
   \<Rightarrow> string \<Rightarrow> num option \<Rightarrow> num option \<Rightarrow> bool \<Rightarrow> string list" where
  \<open>entryTemplate eid anchor ttl txt rows pt art amd rep =
     [''<article class="entry" id="entry-'' @ eid @ ''" data-entry-id="'' @ eid
        @ ''" data-part="'' @ pt @ ''" data-article="''
        @ (case art of None \<Rightarrow> [] | Some n \<Rightarrow> numToString n)
        @ ''" data-amendment="'' @ (case amd of None \<Rightarrow> [] | Some n \<Rightarrow> numToString n)
        @ ''" data-repealed="'' @ (if rep then ''true'' else ''false'') @ ''">'',
      ''  <div class="entry-heading-row">'',
      ''    <h3 class="entry-title"><a href="#entry-'' @ eid @ ''">'' @ ttl @ ''</a>''
        @ (if rep then ''<span class="repealed-badge">Repealed</span>'' else []) @ ''</h3>'',
      join ''\<newline>''
        [''  <details class="entry-details">'',
         ''    <summary class="entry-details-toggle" aria-label="Entry details">i</summary>'',
         ''    <dl class="entry-details-list">'',
         ''      <div class="entry-detail-row entry-detail-row-link"><dt>Link</dt><dd><button type="button" class="copy-anchor-button" data-anchor-id="''
           @ anchor @ ''">Copy link</button> <a class="entry-anchor-link" href="#''
           @ anchor @ ''">Open</a></dd></div>'',
         join ''\<newline>''
           (map (\<lambda>row. ''      <div class="entry-detail-row"><dt>'' @ fst row @ ''</dt><dd>''
                        @ snd row @ ''</dd></div>'') rows),
         ''    </dl>'',
         ''  </details>''],
      ''  </div>'',
      ''  <p class="entry-text">'' @ replaceAll CHR ''\<newline>'' ''<br>'' txt @ ''</p>'',
      ''</article>'']\<close>

section \<open>The specification's wording, and sample data\<close>


fun elements :: "json \<Rightarrow> json list" where
  "elements (JArr xs) = xs"
| "elements v = []"




text \<open>A small data file in the shape of \<open>constitution.json\<close>, out of order.\<close>

definition exampleData :: json where
  "exampleData =
     JArr [JObj [(''id'', JStr ''amend18-s1''), (''type'', JStr ''section''),
                 (''text'', JStr ''Prohibition''), (''position'', JNum (Fin 3)),
                 (''section'', JNum (Fin 1)), (''repealedOn'', JStr ''1933-12-05'')],
           JObj [(''id'', JStr ''art1-s1''), (''type'', JStr ''section''),
                 (''text'', JStr ''All legislative Powers''), (''position'', JStr ''2''),
                 (''article'', JNum (Fin 1)), (''section'', JNum (Fin 1))],
           JObj [(''id'', JStr ''preamble''), (''type'', JStr ''preamble''),
                 (''text'', JStr ''We the People''), (''position'', JNum (Fin 1))]]"

definition exampleEntries :: "entry list" where
  "exampleEntries =
     [\<lparr> id' = ''preamble'', part = ''preamble'', type = ''preamble'', article = None,
        section = None, clause = None, subclause = None, amendmentNumber = None,
        isRepealed = False, text = ''We the People'', searchTags = [], position = Fin 1,
        title = ''Preamble'', ratifiedOn = None, effectiveOn = None, proposedOn = None,
        repealedOn = None, searchable = ''we the people preamble preamble'' \<rparr>,
      \<lparr> id' = ''art1-s1'', part = ''article'', type = ''section'', article = Some (Fin 1),
        section = Some (Fin 1), clause = None, subclause = None, amendmentNumber = None,
        isRepealed = False, text = ''All legislative Powers'', searchTags = [],
        position = Fin 2, title = ''Article 1, Section 1'', ratifiedOn = None,
        effectiveOn = None, proposedOn = None, repealedOn = None,
        searchable = ''all legislative powers art1-s1 article 1, section 1'' \<rparr>,
      \<lparr> id' = ''amend18-s1'', part = ''amendment'', type = ''section'', article = None,
        section = Some (Fin 1), clause = None, subclause = None,
        amendmentNumber = Some (Fin 18), isRepealed = True, text = ''Prohibition'',
        searchTags = [], position = Fin 3, title = ''Amendment 18, Section 1'',
        ratifiedOn = None, effectiveOn = None, proposedOn = None,
        repealedOn = Some ''1933-12-05'',
        searchable = ''prohibition amend18-s1 amendment 18, section 1'' \<rparr>]"

text \<open>A record whose repeal date is present but empty, and its normalized entry.\<close>

definition undatedRecord :: json where
  "undatedRecord =
     JObj [(''id'', JStr ''amend18-s2''), (''type'', JStr ''section''),
           (''text'', JStr ''Concurrent power''), (''position'', JNum (Fin 4)),
           (''section'', JNum (Fin 2)), (''repealedOn'', JStr [])]"

definition undatedEntry :: entry where
  "undatedEntry =
     \<lparr> id' = ''amend18-s2'', part = ''amendment'', type = ''section'', article = None,
       section = Some (Fin 2), clause = None, subclause = None,
       amendmentNumber = Some (Fin 18), isRepealed = True, text = ''Concurrent power'',
       searchTags = [], position = Fin 4, title = ''Amendment 18, Section 2'',
       ratifiedOn = None, effectiveOn = None, proposedOn = None, repealedOn = None,
       searchable = ''concurrent power amend18-s2 amendment 18, section 2'' \<rparr>"

text \<open>The markers of the table of contents in \<open>src/index.html\<close>.\<close>

definition tocStart :: string where
  "tocStart = ''<!-- GENERATED_TOC_START -->''"

definition tocEnd :: string where
  "tocEnd = ''<!-- GENERATED_TOC_END -->''"







section \<open>Properties of escapeHtml\<close>

lemma replaceAll_Nil: "replaceAll c r [] = []"
  by (simp add: replaceAll_def)

lemma replaceAll_Cons:
  "replaceAll c r (x # xs) = (if x = c then r else [x]) @ replaceAll c r xs"
  by (simp add: replaceAll_def)

lemma replaceAll_append:
  "replaceAll c r (xs @ ys) = replaceAll c r xs @ replaceAll c r ys"
  by (simp add: replaceAll_def)

lemma escapeHtml_Nil: "escapeHtml [] = []"
  by (simp add: escapeHtml_def replaceAll_Nil)

lemma escapeHtml_Cons: "escapeHtml (c # cs) = escapeChar c @ escapeHtml cs"
  by (simp add: escapeHtml_def escapeChar_def replaceAll_Cons replaceAll_append replaceAll_Nil)

text \<open>
  The pipeline of five global replacements is one pass over the input: no replacement
  text contains a character that a later replacement rewrites.
\<close>

lemma escapeHtml_concat: "escapeHtml s = concat (map escapeChar s)"
  by (induction s) (simp_all add: escapeHtml_Nil escapeHtml_Cons)

lemma escapeChar_clean:
  "set (escapeChar c) \<inter> {CHR ''<'', CHR ''>'', CHR 0x22, CHR 0x27} = {}"
  by (auto simp: escapeChar_def)

lemma escapeHtml_clean:
  "set (escapeHtml s) \<inter> {CHR ''<'', CHR ''>'', CHR 0x22, CHR 0x27} = {}"
  using escapeChar_clean by (induction s) (auto simp: escapeHtml_Nil escapeHtml_Cons)

lemma escapeChar_cases:
  "(escapeChar c = [c] \<and> c \<noteq> CHR ''&'') \<or> escapeChar c \<in> set htmlEntities"
  by (auto simp: escapeChar_def htmlEntities_def)

lemma entity_ampersand_first:
  "e \<in> set htmlEntities \<Longrightarrow> i < length e \<Longrightarrow> e ! i = CHR ''&'' \<Longrightarrow> i = 0"
  by (auto simp: htmlEntities_def nth_Cons' split: if_splits)

lemma escapeHtml_ampersand:
  "i < length (escapeHtml s) \<Longrightarrow> escapeHtml s ! i = CHR ''&'' \<Longrightarrow>
   \<exists>e \<in> set htmlEntities. prefix e (drop i (escapeHtml s))"
proof (induction s arbitrary: i)
  case Nil
  then show ?case by (simp add: escapeHtml_Nil)
next
  case (Cons c cs)
  show ?case
  proof (cases "i < length (escapeChar c)")
    case True
    with Cons.prems have amp: "escapeChar c ! i = CHR ''&''"
      by (simp add: escapeHtml_Cons nth_append)
    from escapeChar_cases[of c] show ?thesis
    proof
      assume "escapeChar c = [c] \<and> c \<noteq> CHR ''&''"
      with True amp show ?thesis by simp
    next
      assume e: "escapeChar c \<in> set htmlEntities"
      with True amp have "i = 0" by (rule_tac entity_ampersand_first)
      with e show ?thesis
        by (auto simp: escapeHtml_Cons intro!: bexI[of _ "escapeChar c"])
    qed
  next
    case False
    with Cons.prems have "i - length (escapeChar c) < length (escapeHtml cs)"
      and "escapeHtml cs ! (i - length (escapeChar c)) = CHR ''&''"
      by (auto simp: escapeHtml_Cons nth_append)
    from Cons.IH[OF this] False show ?thesis
      by (simp add: escapeHtml_Cons)
  qed
qed

lemma entryLines_template:
  "entryLines e =
     entryTemplate (escapeHtml (id' e)) (escapeHtml (''entry-'' @ escapeHtml (id' e)))
       (escapeHtml (title e)) (escapeHtml (entry.text e))
       (map (\<lambda>row. (escapeHtml (fst row), escapeHtml (snd row))) (buildDetailRows e))
       (entry.part e) (entry.article e) (amendmentNumber e) (isRepealed e)"
proof -
  have d: \<open>detailRowHtml =
        (\<lambda>row. ''      <div class="entry-detail-row"><dt>'' @ escapeHtml (fst row)
                 @ ''</dt><dd>'' @ escapeHtml (snd row) @ ''</dd></div>'')\<close>
    by (rule ext) (simp add: detailRowHtml_def)
  show ?thesis
    unfolding entryLines_def entryTemplate_def buildDetailsHtml_def d Let_def
    by (simp add: o_def)
qed

text \<open>
  Claim C10. For every input string, the output of \<open>escapeHtml\<close> contains none of the
  characters \<open><\<close>, \<open>>\<close>, double quote and single quote, and every \<open>&\<close> of the output
  is the first character of one of the entities \<open>&amp;\<close>, \<open>&lt;\<close>, \<open>&gt;\<close>,
  \<open>&quot;\<close>, \<open>&#39;\<close>. The id, the title, the text and the detail labels and values
  of an entry reach its HTML only as outputs of \<open>escapeHtml\<close>: the entry's block is
  the fixed template filled with these outputs.
\<close>

theorem escapeHtml_safe:
  "CHR ''<'' \<notin> set (escapeHtml s) \<and> CHR ''>'' \<notin> set (escapeHtml s)
   \<and> CHR 0x22 \<notin> set (escapeHtml s) \<and> CHR 0x27 \<notin> set (escapeHtml s)
   \<and> (\<forall>i < length (escapeHtml s). escapeHtml s ! i = CHR ''&'' \<longrightarrow>
         (\<exists>e \<in> set htmlEntities. prefix e (drop i (escapeHtml s))))
   \<and> entryLines e =
       entryTemplate (escapeHtml (id' e)) (escapeHtml (''entry-'' @ escapeHtml (id' e)))
         (escapeHtml (title e)) (escapeHtml (entry.text e))
         (map (\<lambda>row. (escapeHtml (fst row), escapeHtml (snd row))) (buildDetailRows e))
         (entry.part e) (entry.article e) (amendmentNumber e) (isRepealed e)"
proof -
  have "CHR ''<'' \<notin> set (escapeHtml s) \<and> CHR ''>'' \<notin> set (escapeHtml s)
   \<and> CHR 0x22 \<notin> set (escapeHtml s) \<and> CHR 0x27 \<notin> set (escapeHtml s)"
    using escapeHtml_clean[of s] by auto
  moreover have "\<forall>i < length (escapeHtml s). escapeHtml s ! i = CHR ''&'' \<longrightarrow>
         (\<exists>e \<in> set htmlEntities. prefix e (drop i (escapeHtml s)))"
    using escapeHtml_ampersand[of _ s] by blast
  ultimately show ?thesis using entryLines_template[of e] by (intro conjI) simp_all
qed

theorem escapeHtml_safe_witness:
  "escapeHtml ''a&<'' = ''a&amp;&lt;'' \<and> (1::nat) < length (escapeHtml ''a&<'')
   \<and> escapeHtml ''a&<'' ! 1 = CHR ''&''
   \<and> (\<exists>e \<in> set htmlEntities. prefix e (drop 1 (escapeHtml ''a&<'')))"
proof -
  have v: "escapeHtml ''a&<'' = ''a&amp;&lt;''"
    by (simp add: escapeHtml_def replaceAll_def)
  have l: "1 < length (escapeHtml ''a&<'')" and a: "escapeHtml ''a&<'' ! 1 = CHR ''&''"
    by (simp_all add: v)
  note amp = escapeHtml_safe[of "''a&<''" "hd exampleEntries", THEN conjunct2, THEN conjunct2,
      THEN conjunct2, THEN conjunct2, THEN conjunct1]
  from amp l a have "\<exists>e \<in> set htmlEntities. prefix e (drop 1 (escapeHtml ''a&<''))"
    by blast
  with v l a show ?thesis by (intro conjI)
qed

section \<open>Sorting with a comparator, and maps that may throw\<close>

lemma num_le_refl: "num_le a a"
  by (cases a) auto

lemma num_le_trans: "num_le a b \<Longrightarrow> num_le b c \<Longrightarrow> num_le a c"
  by (cases a; cases b; cases c) auto

lemma num_le_total: "num_le a b \<or> num_le b a"
  by (cases a; cases b) auto

lemma num_le_antisym: "num_le a b \<Longrightarrow> num_le b a \<Longrightarrow> a = b"
  by (cases a; cases b) auto

lemma isPositive_minus_num: "isPositive (minus_num a b) = (\<not> num_le a b)"
  by (cases a; cases b) auto

lemma mset_insertBy: "mset (insertBy cmp x xs) = add_mset x (mset xs)"
  by (induction xs) auto

lemma mset_sortBy: "mset (sortBy cmp xs) = mset xs"
  by (induction xs) (auto simp: sortBy_def mset_insertBy)

lemma set_sortBy: "set (sortBy cmp xs) = set xs"
  using mset_sortBy[of cmp xs] by (metis set_mset_mset)



lemma set_insertBy: "set (insertBy cmp x xs) = insert x (set xs)"
  using mset_insertBy[of cmp x xs] by (metis set_mset_add_mset_insert set_mset_mset)

lemma sorted_insertBy:
  "sorted_wrt (\<lambda>a b. num_le (f a) (f b)) xs \<Longrightarrow>
   sorted_wrt (\<lambda>a b. num_le (f a) (f b)) (insertBy (\<lambda>a b. minus_num (f a) (f b)) x xs)"
proof (induction xs)
  case Nil
  then show ?case by simp
next
  case (Cons y ys)
  show ?case
  proof (cases "num_le (f x) (f y)")
    case True
    with Cons.prems show ?thesis
      by (auto simp: isPositive_minus_num intro: num_le_trans)
  next
    case False
    then have "num_le (f y) (f x)" using num_le_total by blast
    with False Cons show ?thesis
      by (auto simp: isPositive_minus_num set_insertBy)
  qed
qed

lemma sorted_sortBy:
  "sorted_wrt (\<lambda>a b. num_le (f a) (f b)) (sortBy (\<lambda>a b. minus_num (f a) (f b)) xs)"
  by (induction xs) (auto simp: sortBy_def intro: sorted_insertBy[unfolded sortBy_def])



lemma mapThrowing_Inr:
  "mapThrowing f xs = Inr ys \<longleftrightarrow> list_all2 (\<lambda>x y. f x = Inr y) xs ys"
proof (induction xs arbitrary: ys)
  case Nil
  then show ?case by auto
next
  case (Cons x xs)
  show ?case
    by (cases ys) (auto simp: Cons.IH[symmetric] split: sum.splits)
qed


section \<open>Trimmed strings\<close>




section \<open>Numbers written in decimal digits\<close>




section \<open>Properties of normalize\<close>

lemma normalize_example: "normalize exampleData = Inr exampleEntries"
  by code_simp

lemma normalize_undated: "normalize (JArr [undatedRecord]) = Inr [undatedEntry]"
  by code_simp

lemma normalize_Inr:
  "normalize rawData = Inr es \<longleftrightarrow>
   (\<exists>rs es'. rawData = JArr rs \<and> mapThrowing normalizeEntry rs = Inr es'
      \<and> es = sortBy (\<lambda>a b. minus_num (position a) (position b)) es')"
  by (cases rawData) (auto simp: normalize_def split: sum.splits)




lemma normalizeEntry_fields:
  assumes "normalizeEntry r = Inr e"
  shows "id' e = stringOrEmpty (getProp r ''id'')"
    and "entry.type e = stringOrEmpty (getProp r ''type'')"
    and "entry.part e = getPart (id' e) (entry.type e)"
    and "amendmentNumber e = getAmendmentNumber (id' e)"
    and "isRepealed e = (getProp r ''repealedOn'' \<noteq> Some JNull \<and> getProp r ''repealedOn'' \<noteq> None)"
    and "repealedOn e = stringOrNull (getProp r ''repealedOn'')"
    and "Num (position e) = toNumber (getProp r ''position'')"
  using assms
  by (auto simp: normalizeEntry_def Let_def split: if_splits number.splits)

lemma list_all2_member:
  "list_all2 P xs ys \<Longrightarrow> x \<in> set xs \<Longrightarrow> \<exists>y \<in> set ys. P x y"
  by (induction xs ys rule: list_all2_induct) auto

lemma normalize_member:
  assumes "normalize (JArr rs) = Inr es" and "r \<in> set rs"
  shows "\<exists>e \<in> set es. normalizeEntry r = Inr e"
proof -
  from assms(1) obtain es' where m: "mapThrowing normalizeEntry rs = Inr es'"
    and es: "es = sortBy (\<lambda>a b. minus_num (position a) (position b)) es'"
    by (auto simp: normalize_Inr)
  from m have "list_all2 (\<lambda>x y. normalizeEntry x = Inr y) rs es'"
    by (simp add: mapThrowing_Inr)
  from list_all2_member[OF this assms(2)]
  obtain e where "e \<in> set es'" "normalizeEntry r = Inr e" by blast
  with es show ?thesis by (auto simp: set_sortBy)
qed

text \<open>
  Claim C2. For every input that \<open>normalize\<close> accepts, the returned entries are in
  nondecreasing order of \<open>position\<close>: any earlier entry's position is at most any later
  entry's, in particular for every pair of adjacent entries.
\<close>

theorem normalize_sorted:
  assumes "normalize rawData = Inr es"
  shows "sorted_wrt (\<lambda>a b. num_le (position a) (position b)) es
         \<and> (\<forall>i. Suc i < length es \<longrightarrow> num_le (position (es ! i)) (position (es ! Suc i)))"
proof -
  from assms have s: "sorted_wrt (\<lambda>a b. num_le (position a) (position b)) es"
    by (auto simp: normalize_Inr sorted_sortBy)
  then have "\<forall>i. Suc i < length es \<longrightarrow> num_le (position (es ! i)) (position (es ! Suc i))"
    by (auto simp: sorted_wrt_iff_nth_less)
  with s show ?thesis by simp
qed

theorem normalize_sorted_witness:
  "normalize exampleData = Inr exampleEntries
   \<and> map position exampleEntries = [Fin 1, Fin 2, Fin 3]
   \<and> sorted_wrt (\<lambda>a b. num_le (position a) (position b)) exampleEntries"
proof -
  have h: "normalize exampleData = Inr exampleEntries" by (rule normalize_example)
  have "map position exampleEntries = [Fin 1, Fin 2, Fin 3]"
    by (simp add: exampleEntries_def)
  with h normalize_sorted[OF h] show ?thesis by simp
qed







text \<open>
  Claim C4, as amended. For every raw record accepted by \<open>normalize\<close>, \<open>isRepealed\<close> is
  true if and only if the raw \<open>repealedOn\<close> property is present and not \<open>null\<close>. A
  non-null normalized \<open>repealedOn\<close> implies \<open>isRepealed\<close>; the converse does not hold.
\<close>

theorem isRepealed_iff_raw_present:
  assumes "normalize (JArr rs) = Inr es" and "r \<in> set rs"
  shows "\<exists>e \<in> set es. normalizeEntry r = Inr e
           \<and> (isRepealed e \<longleftrightarrow>
                getProp r ''repealedOn'' \<noteq> None \<and> getProp r ''repealedOn'' \<noteq> Some JNull)
           \<and> (repealedOn e \<noteq> None \<longrightarrow> isRepealed e)"
proof -
  from normalize_member[OF assms] obtain e where e: "e \<in> set es" "normalizeEntry r = Inr e"
    by blast
  from normalizeEntry_fields(5,6)[OF e(2)]
  have "isRepealed e \<longleftrightarrow>
          getProp r ''repealedOn'' \<noteq> None \<and> getProp r ''repealedOn'' \<noteq> Some JNull"
    and "repealedOn e \<noteq> None \<longrightarrow> isRepealed e"
    by (auto simp: stringOrNull_def split: option.splits json.splits)
  with e show ?thesis by blast
qed

theorem isRepealed_iff_raw_present_witness:
  "normalize exampleData = Inr exampleEntries
   \<and> (\<exists>e \<in> set exampleEntries. normalizeEntry (hd (elements exampleData)) = Inr e
         \<and> isRepealed e \<and> repealedOn e \<noteq> None)"
proof -
  have h: "normalize exampleData = Inr exampleEntries" by (rule normalize_example)
  have d: "exampleData = JArr (elements exampleData)" by (simp add: exampleData_def)
  have m: "hd (elements exampleData) \<in> set (elements exampleData)"
    by (simp add: exampleData_def)
  have p: "getProp (hd (elements exampleData)) ''repealedOn'' = Some (JStr ''1933-12-05'')"
    by (simp add: exampleData_def)
  from h d have "normalize (JArr (elements exampleData)) = Inr exampleEntries" by simp
  from isRepealed_iff_raw_present[OF this m] obtain e where e: "e \<in> set exampleEntries"
    "normalizeEntry (hd (elements exampleData)) = Inr e"
    "isRepealed e \<longleftrightarrow> getProp (hd (elements exampleData)) ''repealedOn'' \<noteq> None
       \<and> getProp (hd (elements exampleData)) ''repealedOn'' \<noteq> Some JNull"
    by blast
  from e(3) p have r: "isRepealed e" by simp
  from normalizeEntry_fields(6)[OF e(2)] p have "repealedOn e \<noteq> None"
    by (simp add: stringOrNull_def)
  with h e(1,2) r show ?thesis by blast
qed

text \<open>
  The claim as first stated fails on a record whose \<open>repealedOn\<close> is the empty string:
  \<open>isRepealed\<close> is true and the normalized \<open>repealedOn\<close> is \<open>null\<close>.
\<close>

theorem isRepealed_without_date_counterexample:
  "normalize (JArr [undatedRecord]) = Inr [undatedEntry]
   \<and> isRepealed undatedEntry \<and> repealedOn undatedEntry = None"
  using normalize_undated by (simp add: undatedEntry_def)



section \<open>Properties of buildToc\<close>








section \<open>Properties of injectGenerated\<close>

lemma indexOfFrom_Some:
  "indexOfFrom needle s = Some k \<Longrightarrow>
   k \<le> length s \<and> prefix needle (drop k s) \<and> (\<forall>j < k. \<not> prefix needle (drop j s))"
proof (induction s arbitrary: k)
  case Nil
  then show ?case by (auto split: if_splits)
next
  case (Cons c cs)
  show ?case
  proof (cases "prefix needle (c # cs)")
    case True
    with Cons.prems show ?thesis by simp
  next
    case False
    with Cons.prems obtain k' where k: "indexOfFrom needle cs = Some k'" "k = Suc k'"
      by auto
    from Cons.IH[OF k(1)] False k(2) show ?thesis
      by (auto simp: less_Suc_eq_0_disj)
  qed
qed

lemma indexOfFrom_None: "indexOfFrom needle s = None \<longleftrightarrow> \<not> sublist needle s"
proof (induction s)
  case Nil
  then show ?case by auto
next
  case (Cons c cs)
  then show ?case by (auto simp: sublist_Cons_right)
qed

lemma indexOfFrom_split:
  assumes "indexOfFrom needle s = Some k"
  shows "\<exists>post. s = take k s @ needle @ post"
proof -
  from indexOfFrom_Some[OF assms] obtain post where "drop k s = needle @ post"
    by (auto simp: prefix_def)
  then have "s = take k s @ needle @ post" by (metis append_take_drop_id)
  then show ?thesis ..
qed

lemma matchHere_None:
  "matchHere S E s = None \<longleftrightarrow> \<not> (\<exists>mid post. s = S @ mid @ E @ post)"
proof
  assume n: "matchHere S E s = None"
  show "\<not> (\<exists>mid post. s = S @ mid @ E @ post)"
  proof
    assume "\<exists>mid post. s = S @ mid @ E @ post"
    then obtain mid post where s: "s = S @ mid @ E @ post" by blast
    then have "drop (length S) s = mid @ E @ post" by simp
    then have "sublist E (drop (length S) s)" unfolding sublist_def by blast
    then have "indexOfFrom E (drop (length S) s) \<noteq> None"
      by (simp add: indexOfFrom_None)
    moreover from s have "prefix S s" by simp
    ultimately have "matchHere S E s \<noteq> None"
      by (auto simp: matchHere_def)
    with n show False by simp
  qed
next
  assume a: "\<not> (\<exists>mid post. s = S @ mid @ E @ post)"
  show "matchHere S E s = None"
  proof (rule ccontr)
    assume "matchHere S E s \<noteq> None"
    then obtain k where p: "prefix S s" and k: "indexOfFrom E (drop (length S) s) = Some k"
      by (auto simp: matchHere_def split: if_splits option.splits)
    from p obtain r where s: "s = S @ r" by (auto simp: prefix_def)
    with k have "indexOfFrom E r = Some k" by simp
    from indexOfFrom_split[OF this] obtain post where "r = take k r @ E @ post" by blast
    with s have "s = S @ take k r @ E @ post" by simp
    with a show False by blast
  qed
qed

text \<open>
  The pattern finds nothing exactly when the text has no start marker that is followed,
  after its end, by an end marker.
\<close>

lemma patternExec_None:
  "patternExec S E s = None \<longleftrightarrow> \<not> (\<exists>pre mid post. s = pre @ S @ mid @ E @ post)"
proof (induction s)
  case Nil
  show ?case
    using matchHere_None[of S E "[]"] by auto
next
  case (Cons c cs)
  have "(\<exists>pre mid post. c # cs = pre @ S @ mid @ E @ post) \<longleftrightarrow>
        (\<exists>mid post. c # cs = S @ mid @ E @ post) \<or> (\<exists>pre mid post. cs = pre @ S @ mid @ E @ post)"
  proof
    assume "\<exists>pre mid post. c # cs = pre @ S @ mid @ E @ post"
    then obtain pre mid post where e: "c # cs = pre @ S @ mid @ E @ post" by blast
    show "(\<exists>mid post. c # cs = S @ mid @ E @ post) \<or> (\<exists>pre mid post. cs = pre @ S @ mid @ E @ post)"
    proof (cases pre)
      case Nil
      with e show ?thesis by auto
    next
      case (Cons p ps)
      with e have "cs = ps @ S @ mid @ E @ post" by simp
      then show ?thesis by blast
    qed
  next
    assume "(\<exists>mid post. c # cs = S @ mid @ E @ post) \<or> (\<exists>pre mid post. cs = pre @ S @ mid @ E @ post)"
    then show "\<exists>pre mid post. c # cs = pre @ S @ mid @ E @ post"
    proof
      assume "\<exists>mid post. c # cs = S @ mid @ E @ post"
      then obtain mid post where "c # cs = [] @ S @ mid @ E @ post" by auto
      then show ?thesis by blast
    next
      assume "\<exists>pre mid post. cs = pre @ S @ mid @ E @ post"
      then obtain pre mid post where "cs = pre @ S @ mid @ E @ post" by blast
      then have "c # cs = (c # pre) @ S @ mid @ E @ post" by simp
      then show ?thesis by blast
    qed
  qed
  with Cons.IH matchHere_None[of S E "c # cs"] show ?case
    by (auto split: option.splits)
qed

text \<open>
  A match is the first from the left, and within it the end marker is the nearest one:
  the text is \<open>pre @ S @ mid @ E @ post\<close> with no match starting inside \<open>pre\<close> and
  the first occurrence of \<open>E\<close> after \<open>S\<close> being the one after \<open>mid\<close>.
\<close>

lemma patternExec_Some:
  "patternExec S E s = Some (i, l) \<Longrightarrow>
   \<exists>mid. i + l \<le> length s \<and> take l (drop i s) = S @ mid @ E
     \<and> indexOfFrom E (drop (i + length S) s) = Some (length mid)
     \<and> (\<forall>j < i. matchHere S E (drop j s) = None)"
proof (induction s arbitrary: i l)
  case Nil
  then obtain k where p: "prefix S []" and k: "indexOfFrom E [] = Some k"
    and il: "i = 0" "l = length S + k + length E"
    by (auto simp: matchHere_def split: if_splits option.splits)
  from p k il show ?case by (auto split: if_splits)
next
  case (Cons c cs)
  show ?case
  proof (cases "matchHere S E (c # cs)")
    case None
    with Cons.prems obtain i' where e: "patternExec S E cs = Some (i', l)" and i: "i = Suc i'"
      by auto
    from Cons.IH[OF e] obtain mid where m: "i' + l \<le> length cs"
      "take l (drop i' cs) = S @ mid @ E"
      "indexOfFrom E (drop (i' + length S) cs) = Some (length mid)"
      "\<forall>j < i'. matchHere S E (drop j cs) = None"
      by blast
    from m(4) None have n: "\<forall>j < i. matchHere S E (drop j (c # cs)) = None"
      unfolding i by (auto simp: less_Suc_eq_0_disj)
    from m(1) have "i + l \<le> length (c # cs)" unfolding i by simp
    moreover from m(2) have "take l (drop i (c # cs)) = S @ mid @ E" unfolding i by simp
    moreover from m(3) have "indexOfFrom E (drop (i + length S) (c # cs)) = Some (length mid)"
      unfolding i by simp
    ultimately show ?thesis using n by blast
  next
    case (Some l')
    with Cons.prems have il: "i = 0" "l = l'" by auto
    from Some obtain k where p: "prefix S (c # cs)"
      and k: "indexOfFrom E (drop (length S) (c # cs)) = Some k"
      and l': "l' = length S + k + length E"
      by (auto simp: matchHere_def split: if_splits option.splits)
    from p obtain r where s: "c # cs = S @ r" by (auto simp: prefix_def)
    from k have kr: "indexOfFrom E r = Some k" unfolding s by simp
    from indexOfFrom_Some[OF kr] have kl: "k \<le> length r" by simp
    define mid where "mid = take k r"
    from indexOfFrom_split[OF kr] obtain post where r: "r = mid @ E @ post"
      unfolding mid_def by blast
    have len: "length mid = k" using kl by (simp add: mid_def)
    have whole: "c # cs = S @ mid @ E @ post" by (subst s, subst r) simp
    have "take l (S @ mid @ E @ post) = S @ mid @ E"
      unfolding il l' using len by simp
    then have t: "take l (drop i (c # cs)) = S @ mid @ E"
      unfolding il(1) whole by simp
    have b: "i + l \<le> length (c # cs)"
      unfolding whole il l' using len by simp
    have "indexOfFrom E (drop (i + length S) (S @ r)) = Some (length mid)"
      unfolding il(1) using kr len by simp
    then have x: "indexOfFrom E (drop (i + length S) (c # cs)) = Some (length mid)"
      unfolding s .
    have "\<forall>j < i. matchHere S E (drop j (c # cs)) = None" unfolding il(1) by simp
    with t b x show ?thesis by blast
  qed
qed

lemma getSubstitution_plain:
  "CHR ''$'' \<notin> set t \<Longrightarrow> getSubstitution matched preceding following t = t"
  by (induction matched preceding following t rule: getSubstitution.induct) auto

text \<open>
  When neither the markers nor the content contain a dollar sign, the result is the one
  the specification describes; \<open>injectGenerated\<close> throws exactly when no marker pair
  is found.
\<close>

lemma injectGenerated_plain:
  "CHR ''$'' \<notin> set (S @ content @ E) \<Longrightarrow>
   injectGenerated s S E content = injectGenerated_spec s S E content"
  by (auto simp: injectGenerated_def injectGenerated_spec_def getSubstitution_plain
           split: option.splits)

lemma injectGenerated_throws:
  "injectGenerated s S E content = Inl MissingMarkerPair \<longleftrightarrow>
   \<not> (\<exists>pre mid post. s = pre @ S @ mid @ E @ post)"
proof -
  have "injectGenerated s S E content = Inl MissingMarkerPair \<longleftrightarrow> patternExec S E s = None"
    by (simp add: injectGenerated_def split: option.splits)
  then show ?thesis by (simp only: patternExec_None)
qed

text \<open>
  Claim C5. \<open>injectGenerated\<close> throws exactly when the source has no start marker
  followed later by an end marker; otherwise it returns the source with the first
  marker-delimited region replaced by the start marker, a newline, the content, a newline
  and the end marker. The first half holds (\<open>injectGenerated_throws\<close>), and so does the
  second for texts without a dollar sign (\<open>injectGenerated_plain\<close>). With a dollar
  sign in the content the code departs from it: \<open>replace\<close> reads \<open>$$\<close> in the
  replacement text as a template for one dollar sign, so the content \<open><li>$$</li>\<close>
  is spliced in as \<open><li>$</li>\<close>.
\<close>

theorem injectGenerated_dollar:
  "injectGenerated (tocStart @ ''old'' @ tocEnd) tocStart tocEnd ''<li>$$</li>''
     = Inr (tocStart @ ''\<newline><li>$</li>\<newline>'' @ tocEnd)
   \<and> injectGenerated_spec (tocStart @ ''old'' @ tocEnd) tocStart tocEnd ''<li>$$</li>''
     = Inr (tocStart @ ''\<newline><li>$$</li>\<newline>'' @ tocEnd)"
  by code_simp

section \<open>Properties of matchesEntry\<close>






section \<open>Properties of sanitizeState\<close>





section \<open>The filter state in the query string\<close>






























end
